theory Spec2Isabelle
  imports Complex_Main
begin

section \<open>Python values\<close>

text \<open>
  Tasks, results, verdicts and refinement instructions are Python dictionaries holding
  JSON-decoded values. A dictionary is an association list in insertion order; its keys
  are strings (every lookup of the program uses a string key). \<open>JFloat\<close> carries the value
  of a finite Python float. Characters are code points below 256.
\<close>

datatype json =
    JNull
  | JBool bool
  | JInt int
  | JFloat real
  | JStr string
  | JArr "json list"
  | JObj "(string \<times> json) list"

type_synonym dict = "(string \<times> json) list"

text \<open>Python truthiness (\<open>bool(x)\<close>, the test of \<open>if x\<close>, \<open>not x\<close>, \<open>x and y\<close>).\<close>

fun truthy :: "json \<Rightarrow> bool" where
  "truthy JNull = False"
| "truthy (JBool b) = b"
| "truthy (JInt i) = (i \<noteq> 0)"
| "truthy (JFloat r) = (r \<noteq> 0)"
| "truthy (JStr s) = (s \<noteq> [])"
| "truthy (JArr xs) = (xs \<noteq> [])"
| "truthy (JObj kvs) = (kvs \<noteq> [])"

text \<open>The numeric value of a bool, int or float: Python compares these three by value.\<close>

fun num_val :: "json \<Rightarrow> real option" where
  "num_val (JBool b) = Some (if b then 1 else 0)"
| "num_val (JInt i) = Some (of_int i)"
| "num_val (JFloat r) = Some r"
| "num_val _ = None"

text \<open>Python \<open>==\<close> on decoded JSON: \<open>1 == 1.0 == True\<close>, lists by position, dictionaries
  by key whatever the order.\<close>

fun py_eq :: "json \<Rightarrow> json \<Rightarrow> bool" where
  "py_eq (JStr a) (JStr b) = (a = b)"
| "py_eq JNull JNull = True"
| "py_eq (JArr xs) (JArr ys) = list_all2 py_eq xs ys"
| "py_eq (JObj a) (JObj b) =
     (length a = length b \<and>
      (\<forall>(k, v) \<in> set a. case map_of b k of None \<Rightarrow> False | Some v' \<Rightarrow> py_eq v v'))"
| "py_eq x y = (case (num_val x, num_val y) of (Some p, Some q) \<Rightarrow> p = q | _ \<Rightarrow> False)"

text \<open>\<open>isinstance(x, int)\<close>: bool is a subclass of int.\<close>

fun is_int :: "json \<Rightarrow> bool" where
  "is_int (JInt i) = True"
| "is_int (JBool b) = True"
| "is_int _ = False"

fun int_val :: "json \<Rightarrow> int" where
  "int_val (JInt i) = i"
| "int_val (JBool b) = (if b then 1 else 0)"
| "int_val _ = 0"

text \<open>\<open>d.get(k)\<close>: a missing key reads as \<open>None\<close>; \<open>k in d\<close>; \<open>d[k] = v\<close>.\<close>

definition py_get :: "dict \<Rightarrow> string \<Rightarrow> json" where
  "py_get d k = (case map_of d k of None \<Rightarrow> JNull | Some v \<Rightarrow> v)"

definition has_key :: "dict \<Rightarrow> string \<Rightarrow> bool" where
  "has_key d k = (map_of d k \<noteq> None)"

fun set_item :: "dict \<Rightarrow> string \<Rightarrow> json \<Rightarrow> dict" where
  "set_item [] k v = [(k, v)]"
| "set_item ((k', v') # d) k v = (if k' = k then (k, v) # d else (k', v') # set_item d k v)"

section \<open>Strings, exceptions and the outside world\<close>

text \<open>\<open>str.isspace\<close> on code points below 256, \<open>str.strip()\<close> and \<open>sep.join\<close>.\<close>

definition is_space :: "char \<Rightarrow> bool" where
  "is_space c = (of_char c \<in> {9, 10, 11, 12, 13, 28, 29, 30, 31, 32, 133, 160 :: nat})"

definition strip :: "string \<Rightarrow> string" where
  "strip s = rev (dropWhile is_space (rev (dropWhile is_space s)))"

fun join :: "string \<Rightarrow> string list \<Rightarrow> string" where
  "join sep [] = []"
| "join sep [x] = x"
| "join sep (x # y # ys) = x @ sep @ join sep (y # ys)"

text \<open>
  Exceptions are values: the class and the text \<open>str(e)\<close>. The first five classes are the
  subclasses of \<open>WorkflowException\<close> in \<open>exceptions.py\<close> that the workflow raises;
  \<open>RetryError\<close> is tenacity's; every other Python exception is \<open>OtherException\<close>.
\<close>

datatype exn_class =
    PlanningError
  | JSONParsingError
  | TaskValidationError
  | TaskExecutionError
  | ReflectionError
  | RetryError
  | OtherException

datatype exn = Exn (cls: exn_class) (msg: string)

text \<open>
  What the program calls and does not define, as parameters; \<open>'w\<close> is the state of the
  outside world (the text-generation service, the search service).
  \<^item> \<open>py_str\<close>: \<open>str(x)\<close> and f-string formatting of a value that is not a string;
  \<^item> \<open>loads\<close>: \<open>json.loads\<close> on a string, \<open>None\<close> for a \<open>JSONDecodeError\<close>;
  \<^item> \<open>py_eval\<close>: \<open>float(eval(s, {"__builtins__": {}}, {}))\<close>, line 60 of \<open>tool_agent.py\<close>;
  \<^item> \<open>search\<close>: the search capability (lines 13 to 28 of \<open>tool_agent.py\<close>);
  \<^item> \<open>tool_arg\<close>: what the \<open>@tool\<close> wrapper of the calculator makes of an input that is
    neither a string nor a dictionary holding a string under \<open>expression\<close>: the text it
    passes as \<open>expression\<close>, or the validation error it raises;
  \<^item> \<open>limit_str\<close>: the text of the graph engine's \<open>GraphRecursionError\<close>;
  \<^item> \<open>retry_str\<close>: \<open>str\<close> of the \<open>RetryError\<close> that wraps a last attempt's exception;
  \<^item> \<open>llm_plan\<close>: lines 212 to 240 of \<open>generate_plan\<close> (prompt, service call, JSON
    extraction and decoding, the check that the decoded value is a list): the decoded
    list, or the exception as it leaves \<open>generate_plan\<close>;
  \<^item> \<open>llm_reflect\<close>: lines 97 to 127 of \<open>evaluate_results\<close> (prompt, service call, JSON
    extraction and decoding) for a decoded JSON object: the object, or the exception as
    it leaves \<open>evaluate_results\<close>.
\<close>

record 'w env =
  py_str :: "json \<Rightarrow> string"
  loads :: "string \<Rightarrow> json option"
  py_eval :: "string \<Rightarrow> exn + json"
  search :: "json \<Rightarrow> 'w \<Rightarrow> (exn + json) \<times> 'w"
  tool_arg :: "json \<Rightarrow> exn + string"
  limit_str :: string
  retry_str :: "exn \<Rightarrow> string"
  llm_plan :: "string \<Rightarrow> 'w \<Rightarrow> (exn + json list) \<times> 'w"
  llm_reflect :: "string \<Rightarrow> dict list \<Rightarrow> dict list \<Rightarrow> 'w \<Rightarrow> (exn + dict) \<times> 'w"

text \<open>\<open>str(x)\<close>: a string is its own text.\<close>

definition str_of :: "'w env \<Rightarrow> json \<Rightarrow> string" where
  "str_of env v = (case v of JStr s \<Rightarrow> s | _ \<Rightarrow> py_str env v)"

text \<open>\<open>type(x).__name__\<close>, and a text between apostrophes, as Python's messages have
  them.\<close>

fun type_name :: "json \<Rightarrow> string" where
  "type_name JNull = ''NoneType''"
| "type_name (JBool b) = ''bool''"
| "type_name (JInt i) = ''int''"
| "type_name (JFloat r) = ''float''"
| "type_name (JStr s) = ''str''"
| "type_name (JArr xs) = ''list''"
| "type_name (JObj kvs) = ''dict''"

definition quoted :: "string \<Rightarrow> string" where
  "quoted s = [CHR 0x27] @ s @ [CHR 0x27]"

section \<open>Planner: repairing and validating task items\<close>

definition allowed_chars :: "char set" where
  "allowed_chars = set ''0123456789+-*/.() ''"

text \<open>\<open>PlannerAgent._clean_calculator_expression\<close>.\<close>

definition clean_calculator_expression :: "string \<Rightarrow> string" where
  "clean_calculator_expression expr = strip (filter (\<lambda>c. c \<in> allowed_chars) expr)"

definition required_keys :: "string list" where
  "required_keys = [''id'', ''description'', ''tool'']"

text \<open>\<open>PlannerAgent._fix_task_format\<close>: the required keys first, then the others.\<close>

definition fix_task_format :: "'w env \<Rightarrow> json \<Rightarrow> exn + dict" where
  "fix_task_format env task_data =
     (case task_data of
        JObj d \<Rightarrow>
          Inr (map (\<lambda>k. (k, py_get d k)) (filter (has_key d) required_keys)
               @ filter (\<lambda>(k, v). k \<notin> set required_keys) d)
      | _ \<Rightarrow>
          Inl (Exn TaskValidationError
                 (''Task item expected to be a dictionary: '' @ str_of env task_data)))"

fun is_str :: "json \<Rightarrow> bool" where
  "is_str (JStr s) = True"
| "is_str _ = False"

text \<open>\<open>PlannerAgent._validate_task\<close>.\<close>

definition validate_task :: "dict \<Rightarrow> bool" where
  "validate_task task =
     (if filter (\<lambda>field. \<not> has_key task field) required_keys \<noteq> [] then False
      else if \<not> (is_int (py_get task ''id'') \<or> is_str (py_get task ''id'')) then False
      else if \<not> is_str (py_get task ''description'') then False
      else if \<not> is_str (py_get task ''tool'') then False
      else if py_get task ''tool'' \<notin> set [JStr ''search'', JStr ''calculator''] then False
      else True)"

text \<open>One pass of the loop of \<open>generate_plan\<close> (lines 245 to 269): the task appended to
  \<open>valid_tasks\<close>, or \<open>None\<close> when the item is skipped.\<close>

definition process_item :: "'w env \<Rightarrow> json \<Rightarrow> dict option" where
  "process_item env task_item_raw =
     (case fix_task_format env task_item_raw of
        Inl e \<Rightarrow> None
      | Inr fixed_task_item \<Rightarrow>
          if validate_task fixed_task_item then
            (case py_get fixed_task_item ''tool'' of
               JStr tool \<Rightarrow>
                 if tool = ''calculator'' then
                   (case py_get fixed_task_item ''description'' of
                      JStr description \<Rightarrow>
                        (let cleaned_description = clean_calculator_expression description in
                         if cleaned_description = [] then None
                         else Some (set_item fixed_task_item ''description''
                                      (JStr cleaned_description)))
                    | _ \<Rightarrow> None)
                 else Some fixed_task_item
             | _ \<Rightarrow> None)
          else None)"

text \<open>\<open>PlannerAgent.generate_plan\<close>.\<close>

definition generate_plan :: "'w env \<Rightarrow> string \<Rightarrow> 'w \<Rightarrow> (exn + dict list) \<times> 'w" where
  "generate_plan env q w =
     (case llm_plan env q w of
        (Inl e, w') \<Rightarrow> (Inl e, w')
      | (Inr parsed_tasks_data, w') \<Rightarrow>
          (let valid_tasks = List.map_filter (process_item env) parsed_tasks_data in
           if valid_tasks = [] \<and> parsed_tasks_data \<noteq> []
           then (Inl (Exn PlanningError ''No valid tasks derived from LLM response.''), w')
           else (Inr valid_tasks, w')))"

section \<open>Tool execution\<close>

text \<open>The body of \<open>calculator\<close> (lines 31 to 67 of \<open>tool_agent.py\<close>) on its argument
  \<open>expression\<close>.\<close>

definition calculator_body :: "'w env \<Rightarrow> string \<Rightarrow> exn + json" where
  "calculator_body env e =
     (if \<not> list_all (\<lambda>c. c \<in> allowed_chars) e then
        Inl (Exn OtherException
               (''Invalid characters found in expression: '' @
                py_str env (JArr (map (\<lambda>c. JStr [c])
                  (sort_key (of_char :: char \<Rightarrow> nat)
                     (remdups (filter (\<lambda>c. c \<notin> allowed_chars) e)))))))
      else
        (let expression_cleaned = filter (\<lambda>c. c \<noteq> CHR '' '') e in
         if expression_cleaned = [] then
           Inl (Exn OtherException ''Expression is empty after cleaning'')
         else if length expression_cleaned > 100 then
           Inl (Exn OtherException
                  (''Expression too long ('' @ py_str env (JInt (int (length expression_cleaned)))
                   @ '' chars) after cleaning''))
         else py_eval env expression_cleaned))"

text \<open>
  \<open>calculator\<close> as the capability table holds it, behind the \<open>@tool\<close> decorator of line
  30: a string is the argument \<open>expression\<close> itself, a dictionary of the arguments gives
  its entry \<open>expression\<close>, and the body runs on that text; for any other input the
  wrapper decides (\<open>tool_arg\<close>). Whatever the input, \<open>eval\<close> is reached through the body
  only.
\<close>

definition calculator :: "'w env \<Rightarrow> json \<Rightarrow> exn + json" where
  "calculator env tool_input =
     (case tool_input of
        JStr e \<Rightarrow> calculator_body env e
      | JObj d \<Rightarrow>
          (case py_get d ''expression'' of
             JStr e \<Rightarrow> calculator_body env e
           | _ \<Rightarrow> (case tool_arg env tool_input of
                      Inl err \<Rightarrow> Inl err
                    | Inr e \<Rightarrow> calculator_body env e))
      | _ \<Rightarrow> (case tool_arg env tool_input of
                 Inl err \<Rightarrow> Inl err
               | Inr e \<Rightarrow> calculator_body env e))"

text \<open>The capability table \<open>self.tools\<close>.\<close>

definition tools :: "'w env \<Rightarrow> string \<Rightarrow> (json \<Rightarrow> 'w \<Rightarrow> (exn + json) \<times> 'w) option" where
  "tools env name =
     (if name = ''search'' then Some (search env)
      else if name = ''calculator'' then Some (\<lambda>d w. (calculator env d, w))
      else None)"

text \<open>What an execution of the adapter does, in order: an attempt of the decorated
  function starts, a capability is called, tenacity sleeps between two attempts.\<close>

datatype event = Attempt nat | Dispatch string | Wait nat

definition result_dict :: "json \<Rightarrow> json \<Rightarrow> string \<Rightarrow> dict" where
  "result_dict task_id result status =
     [(''task_id'', task_id), (''result'', result), (''status'', JStr status)]"

text \<open>The body of \<open>ToolAgent.execute_task\<close> (lines 78 to 121), one attempt.\<close>

definition execute_task_body ::
  "'w env \<Rightarrow> dict \<Rightarrow> 'w \<Rightarrow> (exn + dict) \<times> event list \<times> 'w" where
  "execute_task_body env task w =
     (let task_id = (if has_key task ''id'' then py_get task ''id'' else JStr ''unknown_task'');
          tool_name = py_get task ''tool'';
          description = py_get task ''description''
      in
      if \<not> truthy tool_name then
        (Inl (Exn TaskExecutionError
                (''Task '' @ str_of env task_id @ '' failed: Task missing tool field'')), [], w)
      else
        (case tool_name of
           JArr xs \<Rightarrow>
             (Inl (Exn OtherException (''unhashable type: '' @ quoted ''list'')), [], w)
         | JObj kvs \<Rightarrow>
             (Inl (Exn OtherException (''unhashable type: '' @ quoted ''dict'')), [], w)
         | _ \<Rightarrow>
           (case (case tool_name of JStr n \<Rightarrow> tools env n | _ \<Rightarrow> None) of
              None \<Rightarrow>
                (Inl (Exn TaskExecutionError
                        (''Task '' @ str_of env task_id @ '' failed: Unknown tool: ''
                         @ str_of env tool_name)), [], w)
            | Some tool \<Rightarrow>
                if description = JNull then
                  (Inl (Exn TaskExecutionError
                          (''Task '' @ str_of env task_id
                           @ '' failed: Task missing description field for tool input'')), [], w)
                else
                  (case tool description w of
                     (Inr result, w') \<Rightarrow>
                       (Inr (result_dict task_id result ''completed''),
                        [Dispatch (str_of env tool_name)], w')
                   | (Inl e, w') \<Rightarrow>
                       (if cls e = RetryError then
                          (Inr (result_dict task_id
                                  (JStr (''Task '' @ str_of env task_id @ '' (tool: ''
                                         @ str_of env tool_name
                                         @ '') failed after multiple retries: '' @ msg e))
                                  ''failed''),
                           [Dispatch (str_of env tool_name)], w')
                        else
                          (Inr (result_dict task_id
                                  (JStr (''Error during execution of task '' @ str_of env task_id
                                         @ '' (tool: '' @ str_of env tool_name @ ''): '' @ msg e))
                                  ''failed''),
                           [Dispatch (str_of env tool_name)], w'))))))"

text \<open>
  The decorator \<open>@retry(stop=stop_after_attempt(3), wait=wait_exponential(multiplier=1,
  min=2, max=10))\<close> of tenacity around the whole function: an attempt that returns ends
  the call; an attempt that raises is followed by a sleep and another attempt, until
  attempt 3, after which \<open>RetryError\<close> is raised.
\<close>

definition wait_exponential :: "nat \<Rightarrow> nat" where
  "wait_exponential attempt_number = max 2 (min (1 * 2 ^ (attempt_number - 1)) 10)"

function retrying ::
  "'w env \<Rightarrow> ('w \<Rightarrow> (exn + dict) \<times> event list \<times> 'w) \<Rightarrow> nat \<Rightarrow> 'w
   \<Rightarrow> (exn + dict) \<times> event list \<times> 'w" where
  "retrying env body attempt_number w =
     (case body w of
        (Inr r, evs, w') \<Rightarrow> (Inr r, Attempt attempt_number # evs, w')
      | (Inl e, evs, w') \<Rightarrow>
          if attempt_number \<ge> 3 then
            (Inl (Exn RetryError (retry_str env e)), Attempt attempt_number # evs, w')
          else
            (case retrying env body (Suc attempt_number) w' of
               (r, evs', w'') \<Rightarrow>
                 (r, Attempt attempt_number # evs @ Wait (wait_exponential attempt_number) # evs',
                  w'')))"
  by pat_completeness auto
termination
  by (relation "measure (\<lambda>(env, body, n, w). 3 - n)") auto

text \<open>\<open>ToolAgent.execute_task\<close> as callers see it: the decorated function.\<close>

definition execute_task :: "'w env \<Rightarrow> dict \<Rightarrow> 'w \<Rightarrow> (exn + dict) \<times> event list \<times> 'w" where
  "execute_task env task w = retrying env (execute_task_body env task) 1 w"

section \<open>The workflow state and the continuation decision\<close>

text \<open>\<open>WorkflowState\<close> of \<open>workflow/main_workflow.py\<close>.\<close>

record state =
  query :: string
  tasks :: "dict list"
  results :: "dict list"
  reflection :: dict
  final_response :: string
  iteration :: int
  max_iterations :: int
  error_message :: string

datatype decision = refine_tasks | end_workflow

text \<open>
  \<open>should_continue_decision\<close>: the function increments \<open>state["iteration"]\<close> of the
  state object it is given and returns the name of the next node; the model returns the
  name together with that object as the function leaves it.
\<close>

definition all_tasks_successful :: "dict list \<Rightarrow> bool" where
  "all_tasks_successful rs = list_all (\<lambda>r. py_eq (py_get r ''status'') (JStr ''completed'')) rs"

definition should_continue_decision :: "state \<Rightarrow> decision \<times> state" where
  "should_continue_decision state0 =
     (let state = state0\<lparr>iteration := iteration state0 + 1\<rparr> in
      if error_message state \<noteq> [] then (end_workflow, state)
      else if iteration state \<ge> max_iterations state then (end_workflow, state)
      else if truthy (py_get (reflection state) ''complete'')
              \<and> truthy (py_get (reflection state) ''success'') then (end_workflow, state)
      else if all_tasks_successful (results state)
              \<and> \<not> truthy (py_get (reflection state) ''complete'') then (end_workflow, state)
      else if truthy (py_get (reflection state) ''refinements'')
              \<and> iteration state < max_iterations state then (refine_tasks, state)
      else (end_workflow, state))"

section \<open>The steps of the workflow graph\<close>

definition synthetic_reflection :: "string \<Rightarrow> dict" where
  "synthetic_reflection feedback =
     [(''success'', JBool False), (''complete'', JBool False),
      (''feedback'', JStr feedback), (''refinements'', JArr [])]"

text \<open>\<open>plan_step\<close>.\<close>

definition plan_step :: "'w env \<Rightarrow> state \<Rightarrow> 'w \<Rightarrow> state \<times> 'w" where
  "plan_step env state w =
     (case generate_plan env (query state) w of
        (Inr ts, w') \<Rightarrow> (state\<lparr>tasks := ts\<rparr>, w')
      | (Inl e, w') \<Rightarrow>
          if cls e = PlanningError \<or> cls e = JSONParsingError then
            (state\<lparr>tasks := [],
                   error_message := ''Critical error during task planning: '' @ msg e\<rparr>, w')
          else
            (state\<lparr>tasks := [],
                   error_message := ''Unexpected critical error during task planning: '' @ msg e\<rparr>,
             w'))"

text \<open>The loop of \<open>execute_step\<close> (lines 56 to 69): one result per task, in order.\<close>

fun execute_loop :: "'w env \<Rightarrow> dict list \<Rightarrow> 'w \<Rightarrow> dict list \<times> 'w" where
  "execute_loop env [] w = ([], w)"
| "execute_loop env (task # rest) w =
     (case execute_task env task w of
        (outcome, evs, w') \<Rightarrow>
          (let r = (case outcome of
                      Inr result \<Rightarrow> result
                    | Inl e \<Rightarrow>
                        if cls e = TaskExecutionError then
                          result_dict (py_get task ''id'') (JStr (msg e)) ''failed_critically''
                        else
                          result_dict (py_get task ''id'') (JStr (''Unexpected error: '' @ msg e))
                            ''failed_unexpectedly'')
           in case execute_loop env rest w' of (rs, w'') \<Rightarrow> (r # rs, w'')))"

text \<open>\<open>execute_step\<close>.\<close>

definition execute_step :: "'w env \<Rightarrow> state \<Rightarrow> 'w \<Rightarrow> state \<times> 'w" where
  "execute_step env state w =
     (if tasks state = [] then
        (if error_message state = [] then
           state\<lparr>results := [], error_message := ''Planning failed to produce any tasks.''\<rparr>
         else state\<lparr>results := []\<rparr>, w)
      else
        (case execute_loop env (tasks state) w of
           (rs, w') \<Rightarrow> (state\<lparr>results := rs\<rparr>, w')))"

text \<open>\<open>ReflectorAgent.evaluate_results\<close>: the checks of lines 129 to 136 on the decoded
  object.\<close>

fun is_list :: "json \<Rightarrow> bool" where
  "is_list (JArr xs) = True"
| "is_list _ = False"

definition evaluate_results ::
  "'w env \<Rightarrow> string \<Rightarrow> dict list \<Rightarrow> dict list \<Rightarrow> 'w \<Rightarrow> (exn + dict) \<times> 'w" where
  "evaluate_results env q ts rs w =
     (case llm_reflect env q ts rs w of
        (Inl e, w') \<Rightarrow> (Inl e, w')
      | (Inr verdict, w') \<Rightarrow>
          if \<not> list_all (has_key verdict)
                 [''success'', ''complete'', ''feedback'', ''refinements''] then
            (Inl (Exn ReflectionError
                    (''Reflection object missing required fields. Expected ''
                     @ py_str env (JArr (map JStr [''success'', ''complete'', ''feedback'',
                                                    ''refinements'']))
                     @ '', got '' @ py_str env (JArr (map (JStr \<circ> fst) verdict)))), w')
          else if \<not> is_list (py_get verdict ''refinements'') then
            (Inl (Exn ReflectionError
                    (quoted ''refinements'' @ '' field must be a list, got <class ''
                     @ quoted (type_name (py_get verdict ''refinements'')) @ ''>'')), w')
          else (Inr verdict, w'))"

text \<open>\<open>reflect_step\<close>.\<close>

definition reflect_step :: "'w env \<Rightarrow> state \<Rightarrow> 'w \<Rightarrow> state \<times> 'w" where
  "reflect_step env state w =
     (if results state = [] \<and> error_message state = [] then
        (state\<lparr>reflection :=
            (if tasks state = [] then synthetic_reflection ''No tasks were planned.''
             else synthetic_reflection ''No tasks were executed or no results produced.'')\<rparr>, w)
      else if error_message state \<noteq> [] then
        (state\<lparr>reflection := synthetic_reflection (error_message state)\<rparr>, w)
      else
        (case evaluate_results env (query state) (tasks state) (results state) w of
           (Inr reflection_output, w') \<Rightarrow> (state\<lparr>reflection := reflection_output\<rparr>, w')
         | (Inl e, w') \<Rightarrow>
             if cls e = ReflectionError \<or> cls e = JSONParsingError then
               (state\<lparr>reflection :=
                   synthetic_reflection (''Critical error during result reflection: '' @ msg e),
                 error_message := ''Critical error during result reflection: '' @ msg e\<rparr>, w')
             else
               (state\<lparr>reflection :=
                   synthetic_reflection
                     (''Unexpected critical error during result reflection: '' @ msg e),
                 error_message :=
                   ''Unexpected critical error during result reflection: '' @ msg e\<rparr>, w')))"

section \<open>The refinement engine\<close>

text \<open>
  \<open>dict.update(other)\<close>, by what it leaves in the dictionary (an exception it raises is
  caught at line 198 and only logged). A dictionary is merged key by key. Any other
  iterable is read as a sequence of pairs, one element at a time, so that an element
  that is not a pair, or a key that cannot be hashed, stops the update after the earlier
  pairs were stored. A pair whose key is not a string stores an entry that no lookup of
  this program reads (all use string keys); the model leaves the dictionary as it is for
  such a pair. A value that cannot be iterated stores nothing.
\<close>

fun pair_of :: "json \<Rightarrow> (json \<times> json) option" where
  "pair_of (JArr [k, v]) = Some (k, v)"
| "pair_of (JStr [c, d]) = Some (JStr [c], JStr [d])"
| "pair_of (JObj [(k, v), (k', v')]) = Some (JStr k, JStr k')"
| "pair_of _ = None"

fun update_pairs :: "dict \<Rightarrow> json list \<Rightarrow> dict" where
  "update_pairs d [] = d"
| "update_pairs d (item # items) =
     (case pair_of item of
        None \<Rightarrow> d
      | Some (k, v) \<Rightarrow>
          (case k of
             JStr ks \<Rightarrow> update_pairs (set_item d ks v) items
           | JArr xs \<Rightarrow> d
           | JObj kvs \<Rightarrow> d
           | _ \<Rightarrow> update_pairs d items))"

definition dict_update :: "dict \<Rightarrow> json \<Rightarrow> dict" where
  "dict_update d other =
     (case other of
        JObj kvs \<Rightarrow> foldl (\<lambda>acc (k, v). set_item acc k v) d kvs
      | JArr items \<Rightarrow> update_pairs d items
      | JStr s \<Rightarrow> update_pairs d (map (\<lambda>c. JStr [c]) s)
      | _ \<Rightarrow> d)"

text \<open>Lines 174 to 180: the first task with the id is updated in place. An exception
  of \<open>update\<close> is caught at line 198 and logged; what was stored before it stays.\<close>

fun modify_first :: "json \<Rightarrow> json \<Rightarrow> dict list \<Rightarrow> dict list" where
  "modify_first task_id details [] = []"
| "modify_first task_id details (task # rest) =
     (if py_eq (py_get task ''id'') task_id then dict_update task details # rest
      else task # modify_first task_id details rest)"

text \<open>\<open>json.loads(details_str)\<close>: a value that is not a string raises \<open>TypeError\<close>, text
  that does not decode raises \<open>JSONDecodeError\<close>; both are caught and logged.\<close>

definition decode_details :: "'w env \<Rightarrow> json \<Rightarrow> json option" where
  "decode_details env details_str = (case details_str of JStr s \<Rightarrow> loads env s | _ \<Rightarrow> None)"

text \<open>One pass of the loop of \<open>refine_step\<close> (lines 159 to 199) for an instruction that
  is a dictionary: the task list and the id counter after it.\<close>

definition apply_refinement ::
  "'w env \<Rightarrow> dict \<Rightarrow> dict list \<Rightarrow> int \<Rightarrow> dict list \<times> int" where
  "apply_refinement env refinement current_tasks new_task_id_counter =
     (let action = py_get refinement ''action'';
          task_id_to_act_on = py_get refinement ''task_id'';
          details_str = py_get refinement ''details''
      in
      if py_eq action (JStr ''remove'') \<and> task_id_to_act_on \<noteq> JNull then
        (filter (\<lambda>t. \<not> py_eq (py_get t ''id'') task_id_to_act_on) current_tasks,
         new_task_id_counter)
      else if py_eq action (JStr ''modify'') \<and> task_id_to_act_on \<noteq> JNull \<and> truthy details_str then
        (case decode_details env details_str of
           None \<Rightarrow> (current_tasks, new_task_id_counter)
         | Some details \<Rightarrow>
             (modify_first task_id_to_act_on details current_tasks, new_task_id_counter))
      else if py_eq action (JStr ''add'') \<and> truthy details_str then
        (case decode_details env details_str of
           Some (JObj new_task_details) \<Rightarrow>
             (let (with_id, counter') =
                    (if \<not> has_key new_task_details ''id'' \<or> py_get new_task_details ''id'' = JNull
                     then (set_item new_task_details ''id'' (JInt new_task_id_counter),
                           new_task_id_counter + 1)
                     else (new_task_details, new_task_id_counter))
              in
              if \<not> list_all (has_key with_id) [''id'', ''description'', ''tool'']
              then (current_tasks, counter')
              else (current_tasks @ [with_id], counter'))
         | _ \<Rightarrow> (current_tasks, new_task_id_counter))
      else (current_tasks, new_task_id_counter))"

text \<open>The loop over the instructions. An instruction that is not a dictionary has no
  \<open>get\<close>: lines 159 to 161 are outside the \<open>try\<close>, and the exception leaves the step.\<close>

fun refine_loop :: "'w env \<Rightarrow> json list \<Rightarrow> dict list \<Rightarrow> int \<Rightarrow> exn + dict list" where
  "refine_loop env [] current_tasks counter = Inr current_tasks"
| "refine_loop env (r # rs) current_tasks counter =
     (case r of
        JObj refinement \<Rightarrow>
          (case apply_refinement env refinement current_tasks counter of
             (current_tasks', counter') \<Rightarrow> refine_loop env rs current_tasks' counter')
      | _ \<Rightarrow>
          Inl (Exn OtherException
                 (quoted (type_name r) @ '' object has no attribute '' @ quoted ''get'')))"

text \<open>Line 156: \<open>max([...], default=0) + 1\<close> over the ids that are instances of
  \<open>int\<close>.\<close>

fun max_default0 :: "int list \<Rightarrow> int" where
  "max_default0 [] = 0"
| "max_default0 (x # xs) = fold max xs x"

definition initial_counter :: "dict list \<Rightarrow> int" where
  "initial_counter current_tasks =
     max_default0 (map int_val (filter is_int (map (\<lambda>t. py_get t ''id'') current_tasks))) + 1"

text \<open>\<open>refine_step\<close>. Refinements that are not a list: the loop over a string or over
  the keys of a dictionary meets a string, which has no \<open>get\<close>; a number cannot be
  iterated.\<close>

definition refine_step :: "'w env \<Rightarrow> state \<Rightarrow> exn + state" where
  "refine_step env state =
     (let refinements = py_get (reflection state) ''refinements'';
          current_tasks = tasks state
      in
      if \<not> truthy refinements then Inr (state\<lparr>tasks := current_tasks\<rparr>)
      else
        (case refinements of
           JArr rs \<Rightarrow>
             (case refine_loop env rs current_tasks (initial_counter current_tasks) of
                Inl e \<Rightarrow> Inl e
              | Inr current_tasks' \<Rightarrow>
                  Inr (state\<lparr>tasks := current_tasks', results := [], reflection := [],
                             error_message := []\<rparr>))
         | JStr s \<Rightarrow>
             Inl (Exn OtherException
                    (quoted ''str'' @ '' object has no attribute '' @ quoted ''get''))
         | JObj kvs \<Rightarrow>
             Inl (Exn OtherException
                    (quoted ''str'' @ '' object has no attribute '' @ quoted ''get''))
         | _ \<Rightarrow>
             Inl (Exn OtherException
                    (quoted (type_name refinements) @ '' object is not iterable''))))"

section \<open>The response synthesizer\<close>

definition successful_results_data :: "dict list \<Rightarrow> json list" where
  "successful_results_data rs =
     map (\<lambda>r. py_get r ''result'')
       (filter (\<lambda>r. py_eq (py_get r ''status'') (JStr ''completed'')) rs)"

definition failed_tasks_info :: "'w env \<Rightarrow> dict list \<Rightarrow> string list" where
  "failed_tasks_info env rs =
     map (\<lambda>r. ''Task '' @ str_of env (py_get r ''task_id'') @ '' failed: ''
               @ str_of env (py_get r ''result''))
       (filter (\<lambda>r. \<not> (py_eq (py_get r ''status'') (JStr ''completed'')
                        \<or> py_eq (py_get r ''status'') JNull)) rs)"

text \<open>Lines 223 and 224: \<open>enumerate(successful_results_data, 1)\<close> and the numbered,
  cut payloads.\<close>

fun numbered :: "'w env \<Rightarrow> int \<Rightarrow> json list \<Rightarrow> string list" where
  "numbered env i [] = []"
| "numbered env i (res_data # rest) =
     (str_of env (JInt i) @ ''. '' @ take 500 (str_of env res_data)) # numbered env (i + 1) rest"

text \<open>\<open>generate_response_step\<close>. A feedback that is not a string makes \<open>join\<close> raise.\<close>

definition generate_response_step :: "'w env \<Rightarrow> state \<Rightarrow> exn + state" where
  "generate_response_step env state =
     (if error_message state \<noteq> [] then Inr (state\<lparr>final_response := error_message state\<rparr>)
      else
        (let data = successful_results_data (results state);
             infos = failed_tasks_info env (results state);
             response_parts =
               (if data \<noteq> [] then ''Successfully completed tasks yielded:'' # numbered env 1 data
                else [])
               @ (if infos \<noteq> [] then (CHR 10 # ''Some tasks encountered issues:'') # infos else [])
         in
         if response_parts \<noteq> [] then
           Inr (state\<lparr>final_response := strip (join [CHR 10] response_parts)\<rparr>)
         else
           (let feedback = (if has_key (reflection state) ''feedback''
                            then py_get (reflection state) ''feedback''
                            else JStr ''Workflow concluded. No specific results to report.'')
            in case feedback of
              JStr final_feedback \<Rightarrow>
                Inr (state\<lparr>final_response :=
                       strip (join [CHR 10]
                         (final_feedback #
                          (if tasks state = [] \<and> results state = []
                           then [''No tasks were planned or executed.''] else [])))\<rparr>)
            | _ \<Rightarrow>
                Inl (Exn OtherException
                       (''sequence item 0: expected str instance, '' @ type_name feedback
                        @ '' found'')))))"

section \<open>The graph and \<open>run_workflow\<close>\<close>

text \<open>
  The graph of \<open>create_workflow\<close>, as the graph engine runs it: \<open>plan\<close>, then \<open>execute\<close>,
  \<open>reflect\<close>, the decision, and either \<open>refine\<close> followed by \<open>execute\<close> again or
  \<open>generate_response\<close>. A node's returned state is the state of the next node.
  \<open>should_continue_decision\<close> is the callback of a conditional edge: the engine takes the
  name it returns and hands the state of \<open>reflect\<close> to the next node, so the increment the
  callback makes on its argument is not seen by any node nor by the next decision. The
  engine runs at most \<open>recursion_limit\<close> nodes in one invocation and raises
  \<open>GraphRecursionError\<close> when another node is due after that; the limit is the engine's
  default, since the attribute \<open>workflow.config\<close> set at line 265 is not a setting the
  engine reads. A run gives its outcome, the nodes it ran and the world it leaves; the
  number argument of \<open>run_from_execute\<close> is the number of nodes that may still run.
\<close>

datatype node = Plan | Execute | Reflect | Refine | Respond

definition recursion_limit :: nat where
  "recursion_limit = 25"

definition graph_recursion_error :: "'w env \<Rightarrow> exn" where
  "graph_recursion_error env = Exn OtherException (limit_str env)"

fun run_from_execute ::
  "'w env \<Rightarrow> nat \<Rightarrow> state \<Rightarrow> 'w \<Rightarrow> (exn + state) \<times> node list \<times> 'w" where
  "run_from_execute env 0 state w = (Inl (graph_recursion_error env), [], w)"
| "run_from_execute env (Suc 0) state w =
     (case execute_step env state w of
        (s1, w1) \<Rightarrow> (Inl (graph_recursion_error env), [Execute], w1))"
| "run_from_execute env (Suc (Suc 0)) state w =
     (case execute_step env state w of
        (s1, w1) \<Rightarrow>
          (case reflect_step env s1 w1 of
             (s2, w2) \<Rightarrow> (Inl (graph_recursion_error env), [Execute, Reflect], w2)))"
| "run_from_execute env (Suc (Suc (Suc n))) state w =
     (case execute_step env state w of
        (s1, w1) \<Rightarrow>
          (case reflect_step env s1 w1 of
             (s2, w2) \<Rightarrow>
               (case fst (should_continue_decision s2) of
                  end_workflow \<Rightarrow>
                    (generate_response_step env s2, [Execute, Reflect, Respond], w2)
                | refine_tasks \<Rightarrow>
                    (case refine_step env s2 of
                       Inl e \<Rightarrow> (Inl e, [Execute, Reflect, Refine], w2)
                     | Inr s4 \<Rightarrow>
                         (case run_from_execute env n s4 w2 of
                            (out, trace, w3) \<Rightarrow>
                              (out, [Execute, Reflect, Refine] @ trace, w3))))))"

definition initial_state :: "string \<Rightarrow> int \<Rightarrow> state" where
  "initial_state q m =
     \<lparr>query = q, tasks = [], results = [], reflection = [], final_response = [],
      iteration = 0, max_iterations = m, error_message = []\<rparr>"

text \<open>\<open>workflow_graph.invoke(initial_state)\<close>: \<open>plan\<close> is the first node.\<close>

definition invoke :: "'w env \<Rightarrow> state \<Rightarrow> 'w \<Rightarrow> (exn + state) \<times> node list \<times> 'w" where
  "invoke env state w =
     (case plan_step env state w of
        (s1, w1) \<Rightarrow>
          (case run_from_execute env (recursion_limit - 1) s1 w1 of
             (out, trace, w2) \<Rightarrow> (out, Plan # trace, w2)))"

record run_result =
  success :: bool
  response :: string
  final_tasks :: "dict list"
  final_results :: "dict list"

definition is_workflow_exception :: "exn \<Rightarrow> bool" where
  "is_workflow_exception e =
     (cls e \<in> {PlanningError, JSONParsingError, TaskValidationError, TaskExecutionError,
                ReflectionError})"

text \<open>\<open>run_workflow\<close>.\<close>

definition run_workflow :: "'w env \<Rightarrow> string \<Rightarrow> int \<Rightarrow> 'w \<Rightarrow> run_result \<times> node list \<times> 'w" where
  "run_workflow env q m w =
     (case invoke env (initial_state q m) w of
        (Inr final_state, trace, w') \<Rightarrow>
          (\<lparr>success = (error_message final_state = []),
            response = final_response final_state,
            final_tasks = tasks final_state,
            final_results = results final_state\<rparr>, trace, w')
      | (Inl e, trace, w') \<Rightarrow>
          (if is_workflow_exception e then
             \<lparr>success = False, response = ''Workflow error: '' @ msg e,
              final_tasks = [], final_results = []\<rparr>
           else
             \<lparr>success = False, response = ''Unexpected workflow error: '' @ msg e,
              final_tasks = [], final_results = []\<rparr>, trace, w'))"

definition refine_count :: "node list \<Rightarrow> nat" where
  "refine_count trace = length (filter (\<lambda>n. n = Refine) trace)"

section \<open>Example inputs\<close>

text \<open>
  A concrete outside world for the examples. \<open>ex_py_str\<close> is \<open>str\<close> on the values
  that occur in them (\<open>None\<close>, the booleans, the integers 0 to 9, the floats 1.0 and 4.0,
  strings, lists of plain strings), \<open>ex_loads\<close> is \<open>json.loads\<close> on the four payload texts they use, and
  \<open>ex_eval\<close> is the evaluation of the expressions they use (\<open>1/1\<close>, \<open>2+2\<close>, and \<open>1/0\<close>,
  which raises \<open>ZeroDivisionError\<close>). The planner of \<open>ex_env\<close> answers every query with
  the single task \<open>{"id": 1, "description": "1/0", "tool": "calculator"}\<close>; its reflector
  asks to rewrite task 1 as long as a result is not completed, and reports success
  once all are. The search service is unreachable.
\<close>

definition ex_py_str :: "json \<Rightarrow> string" where
  "ex_py_str v =
     (case v of
        JNull \<Rightarrow> ''None''
      | JBool b \<Rightarrow> (if b then ''True'' else ''False'')
      | JInt i \<Rightarrow>
          (if i = 0 then ''0'' else if i = 1 then ''1'' else if i = 2 then ''2''
           else if i = 3 then ''3'' else if i = 4 then ''4'' else if i = 5 then ''5''
           else if i = 6 then ''6'' else if i = 7 then ''7'' else if i = 8 then ''8''
           else if i = 9 then ''9'' else ''?'')
      | JFloat r \<Rightarrow> (if r = 1 then ''1.0'' else if r = 4 then ''4.0'' else ''?'')
      | JStr s \<Rightarrow> s
      | JArr xs \<Rightarrow>
          ''['' @ join '', '' (map (\<lambda>x. case x of JStr s \<Rightarrow> quoted s | _ \<Rightarrow> ''?'') xs) @ '']''
      | JObj kvs \<Rightarrow> ''?'')"

definition ex_details_modify :: string where
  \<open>ex_details_modify = ''{"description": "1/1"}''\<close>

definition ex_details_add_2 :: string where
  \<open>ex_details_add_2 = ''{"id": 2, "description": "capital of France", "tool": "search"}''\<close>

definition ex_details_add_auto :: string where
  \<open>ex_details_add_auto = ''{"description": "population of France", "tool": "search"}''\<close>

definition ex_details_add_1 :: string where
  \<open>ex_details_add_1 = ''{"id": 1, "description": "3*3", "tool": "calculator"}''\<close>

definition ex_loads :: "string \<Rightarrow> json option" where
  "ex_loads s =
     (if s = ex_details_modify then Some (JObj [(''description'', JStr ''1/1'')])
      else if s = ex_details_add_2 then
        Some (JObj [(''id'', JInt 2), (''description'', JStr ''capital of France''),
                    (''tool'', JStr ''search'')])
      else if s = ex_details_add_auto then
        Some (JObj [(''description'', JStr ''population of France''), (''tool'', JStr ''search'')])
      else if s = ex_details_add_1 then
        Some (JObj [(''id'', JInt 1), (''description'', JStr ''3*3''),
                    (''tool'', JStr ''calculator'')])
      else None)"

definition ex_eval :: "string \<Rightarrow> exn + json" where
  "ex_eval s =
     (if s = ''1/1'' then Inr (JFloat 1)
      else if s = ''2+2'' then Inr (JFloat 4)
      else Inl (Exn OtherException ''division by zero''))"

definition ex_verdict_refine :: dict where
  "ex_verdict_refine =
     [(''success'', JBool False), (''complete'', JBool False),
      (''feedback'', JStr ''division by zero''),
      (''refinements'',
         JArr [JObj [(''action'', JStr ''modify''), (''task_id'', JInt 1),
                     (''details'', JStr ex_details_modify)]])]"

definition ex_verdict_done :: dict where
  "ex_verdict_done =
     [(''success'', JBool True), (''complete'', JBool True),
      (''feedback'', JStr ''done''), (''refinements'', JArr [])]"

definition ex_task :: dict where
  "ex_task = [(''id'', JInt 1), (''description'', JStr ''1/0''), (''tool'', JStr ''calculator'')]"

definition ex_env :: "unit env" where
  "ex_env =
     \<lparr>py_str = ex_py_str,
      loads = ex_loads,
      py_eval = ex_eval,
      search = (\<lambda>q w. (Inl (Exn TaskExecutionError ''Search failed: no network''), w)),
      tool_arg = (\<lambda>v. Inl (Exn OtherException ''validation error for calculator'')),
      limit_str = ''Recursion limit of 25 reached without hitting a stop condition.'',
      retry_str = (\<lambda>e. ''RetryError''),
      llm_plan = (\<lambda>q w. (Inr [JObj ex_task], w)),
      llm_reflect = (\<lambda>q ts rs w.
         (Inr (if all_tasks_successful rs then ex_verdict_done else ex_verdict_refine), w))\<rparr>"

section \<open>Predicates of the properties\<close>

text \<open>A task that fails the checks of lines 84 to 94 of \<open>execute_task\<close>: the tool is
  missing or empty, is not a registered capability, or the description is \<open>None\<close>.\<close>

definition invalid_task :: "dict \<Rightarrow> bool" where
  "invalid_task task =
     (\<not> truthy (py_get task ''tool'')
      \<or> py_get task ''tool'' \<notin> {JStr ''search'', JStr ''calculator''}
      \<or> py_get task ''description'' = JNull)"

definition no_dispatch :: "event list \<Rightarrow> bool" where
  "no_dispatch evs = list_all (\<lambda>ev. case ev of Dispatch n \<Rightarrow> False | _ \<Rightarrow> True) evs"

text \<open>The result that \<open>execute_step\<close> records for a task whose execution raised.\<close>

definition failed_result_for :: "dict \<Rightarrow> dict \<Rightarrow> bool" where
  "failed_result_for task r =
     (py_get r ''task_id'' = py_get task ''id'' \<and> is_str (py_get r ''result'')
      \<and> py_get r ''status'' \<in> {JStr ''failed_critically'', JStr ''failed_unexpectedly''})"

definition task_ids :: "dict list \<Rightarrow> json list" where
  "task_ids ts = map (\<lambda>t. py_get t ''id'') ts"

text \<open>More example inputs: a task without a tool, a planner that returns an empty
  list, and a decision round whose verdict adds a task with the explicit id 2 and then
  a task without an id.\<close>

definition ex_task_no_tool :: dict where
  "ex_task_no_tool = [(''id'', JInt 1), (''description'', JStr ''2+2'')]"

definition ex_empty_plan_env :: "unit env" where
  "ex_empty_plan_env = ex_env\<lparr>llm_plan := (\<lambda>q w. (Inr [], w))\<rparr>"

definition c6_state :: state where
  "c6_state =
     \<lparr>query = ''France'',
      tasks = [[(''id'', JInt 1), (''description'', JStr ''France''), (''tool'', JStr ''search'')]],
      results = [[(''task_id'', JInt 1),
                  (''result'', JStr ''Error during execution of task 1 (tool: search): Search failed: no network''),
                  (''status'', JStr ''failed'')]],
      reflection =
        [(''success'', JBool False), (''complete'', JBool False),
         (''feedback'', JStr ''be more specific''),
         (''refinements'',
            JArr [JObj [(''action'', JStr ''add''), (''task_id'', JNull),
                        (''details'', JStr ex_details_add_2)],
                  JObj [(''action'', JStr ''add''), (''task_id'', JNull),
                        (''details'', JStr ex_details_add_auto)]])],
      final_response = [],
      iteration = 0,
      max_iterations = 3,
      error_message = []\<rparr>"

text \<open>
  Ids are compared with Python's \<open>==\<close> (lines 167 and 175). Two ids are the same when
  \<open>==\<close> holds between them, in either order; a list of ids is unique when no two of its
  entries are the same.
\<close>

definition same_id :: "json \<Rightarrow> json \<Rightarrow> bool" where
  "same_id x y = (py_eq x y \<or> py_eq y x)"

fun unique_ids :: "json list \<Rightarrow> bool" where
  "unique_ids [] = True"
| "unique_ids (x # xs) = (list_all (\<lambda>y. \<not> same_id x y) xs \<and> unique_ids xs)"

definition id_not_among :: "json \<Rightarrow> dict list \<Rightarrow> bool" where
  "id_not_among i ts = list_all (\<lambda>u. \<not> same_id i (py_get u ''id'')) ts"

text \<open>
  A \<open>modify\<close> gives its target an id that no other task has: the task it updates (the
  first one with the id asked for, as in \<open>modify_first\<close>; \<open>seen\<close> are the tasks before it)
  keeps its id, or gets one that differs from the ids of all the other tasks.
\<close>

fun modify_fresh :: "json \<Rightarrow> json \<Rightarrow> dict list \<Rightarrow> dict list \<Rightarrow> bool" where
  "modify_fresh task_id details seen [] = True"
| "modify_fresh task_id details seen (task # rest) =
     (if py_eq (py_get task ''id'') task_id then
        (py_get (dict_update task details) ''id'' = py_get task ''id''
         \<or> id_not_among (py_get (dict_update task details) ''id'') (seen @ rest))
      else modify_fresh task_id details (seen @ [task]) rest)"

text \<open>
  An instruction, applied to the task list as it stands, gives no task an id that
  another task of the list has: a \<open>modify\<close> as above, an \<open>add\<close> that appends a task
  appends one whose id (the explicit one or the one the counter gives) no task of the
  list has. A \<open>remove\<close> and an instruction that the loop skips give no id. The conditions
  are those of the branches of \<open>apply_refinement\<close>.
\<close>

definition gives_fresh_id :: "'w env \<Rightarrow> dict \<Rightarrow> dict list \<Rightarrow> int \<Rightarrow> bool" where
  "gives_fresh_id env refinement current_tasks new_task_id_counter =
     (let action = py_get refinement ''action'';
          task_id_to_act_on = py_get refinement ''task_id'';
          details_str = py_get refinement ''details''
      in
      if py_eq action (JStr ''remove'') \<and> task_id_to_act_on \<noteq> JNull then True
      else if py_eq action (JStr ''modify'') \<and> task_id_to_act_on \<noteq> JNull \<and> truthy details_str then
        (case decode_details env details_str of
           None \<Rightarrow> True
         | Some details \<Rightarrow> modify_fresh task_id_to_act_on details [] current_tasks)
      else if py_eq action (JStr ''add'') \<and> truthy details_str then
        (case decode_details env details_str of
           Some (JObj new_task_details) \<Rightarrow>
             (let with_id =
                    (if \<not> has_key new_task_details ''id'' \<or> py_get new_task_details ''id'' = JNull
                     then set_item new_task_details ''id'' (JInt new_task_id_counter)
                     else new_task_details)
              in
              \<not> list_all (has_key with_id) [''id'', ''description'', ''tool'']
              \<or> id_not_among (py_get with_id ''id'') current_tasks)
         | _ \<Rightarrow> True)
      else True)"

text \<open>Every instruction of a round gives only fresh ids, each at the moment the loop
  of \<open>refine_step\<close> applies it.\<close>

fun fresh_ids :: "'w env \<Rightarrow> json list \<Rightarrow> dict list \<Rightarrow> int \<Rightarrow> bool" where
  "fresh_ids env [] current_tasks counter = True"
| "fresh_ids env (r # rs) current_tasks counter =
     (case r of
        JObj refinement \<Rightarrow>
          gives_fresh_id env refinement current_tasks counter
          \<and> (case apply_refinement env refinement current_tasks counter of
                (current_tasks', counter') \<Rightarrow> fresh_ids env rs current_tasks' counter')
      | _ \<Rightarrow> True)"

text \<open>
  Two results that differ at most in what lies beyond the first 500 characters of the
  text of a completed payload.
\<close>

definition same_rendering :: "'w env \<Rightarrow> dict \<Rightarrow> dict \<Rightarrow> bool" where
  "same_rendering env r r' =
     (py_get r' ''status'' = py_get r ''status''
      \<and> py_get r' ''task_id'' = py_get r ''task_id''
      \<and> (if py_eq (py_get r ''status'') (JStr ''completed'')
         then take 500 (str_of env (py_get r' ''result''))
              = take 500 (str_of env (py_get r ''result''))
         else py_get r' ''result'' = py_get r ''result''))"

text \<open>
  Example inputs for the refinement engine: the environment \<open>ex_env2\<close> also decodes
  the payloads \<open>{"id": 1}\<close>, \<open>{"id": 7}\<close> and an added task with the id 3; \<open>c8_state rs\<close> is
  a decision round over two tasks with ids 1 and 3 whose verdict carries the
  instructions \<open>rs\<close>.
\<close>

definition ex_details_set_id_1 :: string where
  \<open>ex_details_set_id_1 = ''{"id": 1}''\<close>

definition ex_details_set_id_7 :: string where
  \<open>ex_details_set_id_7 = ''{"id": 7}''\<close>

definition ex_details_add_3 :: string where
  \<open>ex_details_add_3 = ''{"id": 3, "description": "Paris", "tool": "search"}''\<close>

definition ex_loads2 :: "string \<Rightarrow> json option" where
  "ex_loads2 s =
     (if s = ex_details_set_id_1 then Some (JObj [(''id'', JInt 1)])
      else if s = ex_details_set_id_7 then Some (JObj [(''id'', JInt 7)])
      else if s = ex_details_add_3 then
        Some (JObj [(''id'', JInt 3), (''description'', JStr ''Paris''),
                    (''tool'', JStr ''search'')])
      else ex_loads s)"

definition ex_env2 :: "unit env" where
  "ex_env2 = ex_env\<lparr>loads := ex_loads2\<rparr>"

definition ex_two_tasks :: "dict list" where
  "ex_two_tasks =
     [[(''id'', JInt 1), (''description'', JStr ''1/0''), (''tool'', JStr ''calculator'')],
      [(''id'', JInt 3), (''description'', JStr ''France''), (''tool'', JStr ''search'')]]"

definition c8_state :: "json list \<Rightarrow> state" where
  "c8_state rs =
     \<lparr>query = ''France'',
      tasks = ex_two_tasks,
      results = [],
      reflection =
        [(''success'', JBool False), (''complete'', JBool False),
         (''feedback'', JStr ''try again''), (''refinements'', JArr rs)],
      final_response = [],
      iteration = 1,
      max_iterations = 3,
      error_message = []\<rparr>"

definition ex_add_id_1 :: json where
  "ex_add_id_1 = JObj [(''action'', JStr ''add''), (''task_id'', JNull),
                       (''details'', JStr ex_details_add_1)]"

definition ex_modify_3_to_1 :: json where
  "ex_modify_3_to_1 = JObj [(''action'', JStr ''modify''), (''task_id'', JInt 3),
                            (''details'', JStr ex_details_set_id_1)]"

definition ex_safe_round :: "json list" where
  "ex_safe_round =
     [JObj [(''action'', JStr ''remove''), (''task_id'', JInt 3),
            (''details'', JStr ''not needed'')],
      JObj [(''action'', JStr ''add''), (''task_id'', JNull),
            (''details'', JStr ex_details_add_3)],
      JObj [(''action'', JStr ''modify''), (''task_id'', JInt 1),
            (''details'', JStr ex_details_set_id_7)],
      JObj [(''action'', JStr ''add''), (''task_id'', JNull),
            (''details'', JStr ex_details_add_auto)]]"

definition refined_ids :: "'w env \<Rightarrow> state \<Rightarrow> json list option" where
  "refined_ids env s =
     (case refine_step env s of Inl e \<Rightarrow> None | Inr s' \<Rightarrow> Some (task_ids (tasks s')))"




definition c10_state :: state where
  "c10_state =
     \<lparr>query = ''a'',
      tasks = [[(''id'', JInt 1), (''description'', JStr ''a''), (''tool'', JStr ''search'')],
               [(''id'', JInt 2), (''description'', JStr ''b''), (''tool'', JStr ''search'')]],
      results = [result_dict (JInt 1) (JStr (replicate 600 (CHR ''a''))) ''completed'',
                 result_dict (JInt 2) (JStr ''second'') ''completed''],
      reflection = ex_verdict_done,
      final_response = [],
      iteration = 1,
      max_iterations = 3,
      error_message = []\<rparr>"

definition c10_other_results :: "dict list" where
  "c10_other_results =
     [result_dict (JInt 1) (JStr (replicate 500 (CHR ''a'') @ ''and a different end''))
        ''completed'',
      result_dict (JInt 2) (JStr ''second'') ''completed'']"

text \<open>
  Example inputs for the iteration limit: the planner proposes one search, the search
  service is unreachable, and the reflector always asks to rewrite task 1.
\<close>

definition ex_stuck_env :: "unit env" where
  "ex_stuck_env =
     ex_env\<lparr>llm_plan := (\<lambda>q w.
               (Inr [JObj [(''id'', JInt 1), (''description'', JStr ''France''),
                           (''tool'', JStr ''search'')]], w)),
            llm_reflect := (\<lambda>q ts rs w. (Inr ex_verdict_refine, w))\<rparr>"

text \<open>A decision round in which the single result is completed, the verdict reports
  \<open>complete\<close> without \<open>success\<close> and carries one refinement instruction.\<close>

definition c1_state :: state where
  "c1_state =
     \<lparr>query = ''2 + 2'',
      tasks = [[(''id'', JInt 1), (''description'', JStr ''2 + 2''), (''tool'', JStr ''calculator'')]],
      results = [[(''task_id'', JInt 1), (''result'', JFloat 4), (''status'', JStr ''completed'')]],
      reflection =
        [(''success'', JBool False), (''complete'', JBool True),
         (''feedback'', JStr ''wrong question answered''),
         (''refinements'',
            JArr [JObj [(''action'', JStr ''remove''), (''task_id'', JInt 1),
                        (''details'', JStr ''not needed'')]])],
      final_response = [],
      iteration = 0,
      max_iterations = 3,
      error_message = []\<rparr>"

text \<open>The same round with a verdict that does not report \<open>complete\<close>.\<close>

definition c1_state_incomplete :: state where
  "c1_state_incomplete =
     c1_state\<lparr>reflection :=
        [(''success'', JBool False), (''complete'', JBool False),
         (''feedback'', JStr ''more work needed''),
         (''refinements'',
            JArr [JObj [(''action'', JStr ''remove''), (''task_id'', JInt 1),
                        (''details'', JStr ''not needed'')]])]\<rparr>"

section \<open>Basic facts\<close>

text \<open>Only a string is equal to a string.\<close>

lemma py_eq_JStr_right: "py_eq x (JStr s) = (x = JStr s)"
  by (cases x) auto

lemma decision_refine:
  "should_continue_decision s = (refine_tasks, s') \<Longrightarrow>
     s' = s\<lparr>iteration := iteration s + 1\<rparr> \<and> iteration s + 1 < max_iterations s
     \<and> error_message s = [] \<and> truthy (py_get (reflection s) ''refinements'')"
  by (auto simp: should_continue_decision_def Let_def split: if_splits)

declare run_from_execute.simps [simp del]

lemma fuel_after_plan: "recursion_limit - 1 = Suc (Suc (Suc 21))"
  by (simp add: recursion_limit_def)

section \<open>The iteration limit\<close>

text \<open>
  C5 (what the code does). The counter is incremented by \<open>should_continue_decision\<close>
  only, on the state object the engine gives to the callback; no node sees the
  increment, so every decision reads 0 and compares 1 with the maximum, and rule 2 fires
  only for a maximum of at most 1. With a planner whose task keeps failing and a
  reflector that keeps asking for a refinement, a run with the maximum 2, and one with
  the maximum 3, takes 8 refine transitions and is ended by the engine's own limit of 25
  nodes, as an unexpected workflow error.
\<close>

theorem c5_iteration_limit_not_enforced:
  "refine_count (fst (snd (run_workflow ex_stuck_env ''France'' 2 ()))) = 8
   \<and> fst (run_workflow ex_stuck_env ''France'' 2 ())
       = \<lparr>success = False,
          response = ''Unexpected workflow error: Recursion limit of 25 reached without hitting a stop condition.'',
          final_tasks = [], final_results = []\<rparr>
   \<and> refine_count (fst (snd (run_workflow ex_stuck_env ''France'' 3 ()))) = 8"
  by code_simp

section \<open>Decision rule 4\<close>

text \<open>
  C1 (as stated, refuted). With every result completed and a verdict that reports
  \<open>complete\<close> but not \<open>success\<close> (so it does not report complete together with success),
  a non-empty refinement list sends the controller to \<open>refine\<close>, not to \<open>respond\<close>.
\<close>

theorem c1_counterexample:
  "all_tasks_successful (results c1_state)
   \<and> \<not> (truthy (py_get (reflection c1_state) ''complete'')
          \<and> truthy (py_get (reflection c1_state) ''success''))
   \<and> fst (should_continue_decision c1_state) = refine_tasks"
  by (simp add: c1_state_def should_continue_decision_def all_tasks_successful_def py_get_def)

text \<open>
  C1 (amended). In every decision round in which every result has status
  \<open>completed\<close>, the controller goes to \<open>respond\<close> whatever the refinements are, provided
  the verdict does not report \<open>complete\<close> without \<open>success\<close>: either it does not report
  \<open>complete\<close> (rule 4) or it reports \<open>complete\<close> together with \<open>success\<close> (rule 3).
\<close>

theorem c1_all_completed_responds:
  assumes "all_tasks_successful (results s)"
    and "\<not> truthy (py_get (reflection s) ''complete'') \<or> truthy (py_get (reflection s) ''success'')"
  shows "fst (should_continue_decision s) = end_workflow"
  using assms by (auto simp: should_continue_decision_def Let_def)

theorem c1_all_completed_responds_witness:
  "all_tasks_successful (results c1_state_incomplete)
   \<and> truthy (py_get (reflection c1_state_incomplete) ''refinements'')
   \<and> fst (should_continue_decision c1_state_incomplete) = end_workflow"
proof -
  have a: "all_tasks_successful (results c1_state_incomplete)"
    by (simp add: c1_state_incomplete_def c1_state_def all_tasks_successful_def py_get_def)
  have b: "\<not> truthy (py_get (reflection c1_state_incomplete) ''complete'')
           \<or> truthy (py_get (reflection c1_state_incomplete) ''success'')"
    by (simp add: c1_state_incomplete_def py_get_def)
  have c: "truthy (py_get (reflection c1_state_incomplete) ''refinements'')"
    by (simp add: c1_state_incomplete_def py_get_def)
  from a c c1_all_completed_responds [OF a b] show ?thesis by simp
qed

section \<open>The state after a refine transition\<close>

text \<open>
  C7. After every refine transition (the decision answered \<open>refine_tasks\<close> and
  \<open>refine_step\<close> returned, so that control goes back to \<open>execute\<close>), the result list is
  empty, the reflection verdict is the empty dictionary and the fatal-error message is
  empty. This holds for the state that the engine hands to \<open>refine_step\<close> (the state the
  decision was made on) and for that state with the callback's increment. The early
  return of \<open>refine_step\<close>, which clears nothing, needs an empty refinement list, with
  which the decision never answers \<open>refine_tasks\<close>.
\<close>

theorem c7_refine_clears:
  assumes "should_continue_decision s = (refine_tasks, s')"
    and "refine_step env s = Inr s'' \<or> refine_step env s' = Inr s''"
  shows "results s'' = [] \<and> reflection s'' = [] \<and> error_message s'' = []"
proof -
  from decision_refine[OF assms(1)]
  have "truthy (py_get (reflection s) ''refinements'')"
    and "truthy (py_get (reflection s') ''refinements'')"
    by auto
  with assms(2) show ?thesis
    by (auto simp: refine_step_def Let_def split: json.splits sum.splits)
qed

text \<open>
  The round of \<open>c1_state\<close> takes the refine transition; its instruction removes
  task 1.
\<close>

theorem c7_refine_clears_witness:
  "should_continue_decision c1_state = (refine_tasks, c1_state\<lparr>iteration := 1\<rparr>)
   \<and> refine_step ex_env c1_state
       = Inr (c1_state\<lparr>tasks := [], results := [], reflection := [], error_message := []\<rparr>)
   \<and> results (c1_state\<lparr>tasks := [], results := [], reflection := [],
                        error_message := []\<rparr>) = []
   \<and> reflection (c1_state\<lparr>tasks := [], results := [], reflection := [],
                        error_message := []\<rparr>) = []"
proof -
  have a: "should_continue_decision c1_state = (refine_tasks, c1_state\<lparr>iteration := 1\<rparr>)"
    by code_simp
  have b: "refine_step ex_env c1_state
       = Inr (c1_state\<lparr>tasks := [], results := [], reflection := [], error_message := []\<rparr>)"
    by code_simp
  from c7_refine_clears[OF a disjI1[OF b]] a b show ?thesis by simp
qed

section \<open>An empty plan\<close>

text \<open>
  C2 (what the code does). When the planner returns no task item at all,
  \<open>generate_plan\<close> returns the empty list without an error, but \<open>execute_step\<close> then
  records the fatal error \<open>Planning failed to produce any tasks.\<close>; the run ends
  unsuccessful and its response is that error message, not the statement
  \<open>No tasks were planned or executed.\<close> of \<open>generate_response_step\<close>.
\<close>

theorem c2_empty_plan_recorded_as_error:
  assumes "llm_plan env q w = (Inr [], w')"
  shows "run_workflow env q m w =
           (\<lparr>success = False, response = ''Planning failed to produce any tasks.'',
             final_tasks = [], final_results = []\<rparr>,
            [Plan, Execute, Reflect, Respond], w')"
proof -
  have p: "plan_step env (initial_state q m) w = (initial_state q m, w')"
    using assms by (simp add: plan_step_def generate_plan_def List.map_filter_def initial_state_def)
  let ?s1 = "(initial_state q m)\<lparr>results := [], error_message := ''Planning failed to produce any tasks.''\<rparr>"
  have e: "execute_step env (initial_state q m) w' = (?s1, w')"
    by (simp add: execute_step_def initial_state_def)
  let ?s2 = "?s1\<lparr>reflection := synthetic_reflection ''Planning failed to produce any tasks.''\<rparr>"
  have r: "reflect_step env ?s1 w' = (?s2, w')"
    by (simp add: reflect_step_def initial_state_def)
  have d: "fst (should_continue_decision ?s2) = end_workflow"
    by (simp add: should_continue_decision_def initial_state_def)
  have g: "generate_response_step env ?s2
            = Inr (?s2\<lparr>final_response := ''Planning failed to produce any tasks.''\<rparr>)"
    by (simp add: generate_response_step_def initial_state_def)
  have "run_from_execute env (recursion_limit - 1) (initial_state q m) w'
          = (Inr (?s2\<lparr>final_response := ''Planning failed to produce any tasks.''\<rparr>),
             [Execute, Reflect, Respond], w')"
    unfolding fuel_after_plan run_from_execute.simps(4) by (simp add: e r d g)
  with p show ?thesis
    by (simp add: run_workflow_def invoke_def initial_state_def)
qed

text \<open>
  The example planner that returns the empty list.
\<close>

theorem c2_empty_plan_recorded_as_error_witness:
  "llm_plan ex_empty_plan_env ''hello'' () = (Inr [], ())
   \<and> run_workflow ex_empty_plan_env ''hello'' 3 () =
           (\<lparr>success = False, response = ''Planning failed to produce any tasks.'',
             final_tasks = [], final_results = []\<rparr>,
            [Plan, Execute, Reflect, Respond], ())"
proof -
  have a: "llm_plan ex_empty_plan_env ''hello'' () = (Inr [], ())"
    by (simp add: ex_empty_plan_env_def)
  from a c2_empty_plan_recorded_as_error[OF a, of 3] show ?thesis by simp
qed

section \<open>Tasks that fail the checks before dispatch\<close>

lemma execute_task_body_invalid:
  "invalid_task task \<Longrightarrow> \<exists>e. execute_task_body env task w = (Inl e, [], w)"
  by (auto simp: invalid_task_def execute_task_body_def tools_def Let_def split: json.splits)

lemma retrying_all_raise:
  assumes "body w = (Inl e, [], w)"
  shows "retrying env body 1 w =
           (Inl (Exn RetryError (retry_str env e)),
            [Attempt 1, Wait 2, Attempt 2, Wait 2, Attempt 3], w)"
proof -
  have 3: "retrying env body 3 w = (Inl (Exn RetryError (retry_str env e)), [Attempt 3], w)"
    using assms by (subst retrying.simps) simp
  have 2: "retrying env body 2 w
             = (Inl (Exn RetryError (retry_str env e)), [Attempt 2, Wait 2, Attempt 3], w)"
    using assms 3 by (subst retrying.simps) (simp add: wait_exponential_def eval_nat_numeral)
  show ?thesis
    using assms 2 by (subst retrying.simps) (simp add: wait_exponential_def eval_nat_numeral)
qed

lemma execute_task_invalid:
  assumes "invalid_task task"
  shows "\<exists>e. execute_task env task w =
           (Inl (Exn RetryError (retry_str env e)),
            [Attempt 1, Wait 2, Attempt 2, Wait 2, Attempt 3], w)"
proof -
  from execute_task_body_invalid[OF assms, of env w] obtain e
    where "execute_task_body env task w = (Inl e, [], w)" by blast
  from retrying_all_raise[of "execute_task_body env task", OF this] show ?thesis
    by (auto simp: execute_task_def)
qed

lemma execute_loop_invalid:
  "list_all2 (\<lambda>t r. invalid_task t \<longrightarrow> failed_result_for t r) ts (fst (execute_loop env ts w))"
proof (induction ts arbitrary: w)
  case Nil
  show ?case by simp
next
  case (Cons t ts)
  obtain out evs w' where a: "execute_task env t w = (out, evs, w')"
    using prod_cases3 by blast
  obtain rs w'' where b: "execute_loop env ts w' = (rs, w'')" by fastforce
  from Cons.IH[of w'] b have ih: "list_all2 (\<lambda>t r. invalid_task t \<longrightarrow> failed_result_for t r) ts rs"
    by simp
  have "invalid_task t \<longrightarrow> (\<exists>e. out = Inl e)"
    using execute_task_invalid[of t env w] a by auto
  with a b ih show ?case
    by (auto simp: failed_result_for_def result_dict_def py_get_def Let_def split: sum.splits)
qed

text \<open>
  C3 (as stated, refuted). For a task without a tool the adapter returns no Result:
  the decorated function runs three attempts with two sleeps and \<open>RetryError\<close> leaves
  it.
\<close>

theorem c3_counterexample:
  "invalid_task ex_task_no_tool
   \<and> execute_task ex_env ex_task_no_tool ()
       = (Inl (Exn RetryError ''RetryError''),
          [Attempt 1, Wait 2, Attempt 2, Wait 2, Attempt 3], ())"
  by code_simp

text \<open>
  C3 (amended). For every task whose tool is missing or empty, is not a registered
  capability, or whose description is \<open>None\<close>, the adapter calls no capability, leaves
  the outside world as it is and raises instead of returning a Result; the execution
  step catches what the adapter raises and records, for every such task of the round
  and in its place in the result list, one Result with the task's id, a message and
  the status \<open>failed_critically\<close> or \<open>failed_unexpectedly\<close>.
\<close>

theorem c3_invalid_task_raises_and_is_recorded:
  assumes "invalid_task task"
  shows "(\<exists>e. fst (execute_task env task w) = Inl e)
         \<and> no_dispatch (fst (snd (execute_task env task w)))
         \<and> snd (snd (execute_task env task w)) = w
         \<and> list_all2 (\<lambda>t r. invalid_task t \<longrightarrow> failed_result_for t r) ts
              (fst (execute_loop env ts w0))"
  using execute_task_invalid[OF assms, of env w] execute_loop_invalid[of ts env w0]
  by (auto simp: no_dispatch_def)

text \<open>
  A round of two tasks: a division by zero, then a task without a tool.
\<close>

theorem c3_invalid_task_raises_and_is_recorded_witness:
  "invalid_task ex_task_no_tool
   \<and> (\<exists>e. fst (execute_task ex_env ex_task_no_tool ()) = Inl e)
   \<and> no_dispatch (fst (snd (execute_task ex_env ex_task_no_tool ())))
   \<and> fst (execute_loop ex_env [ex_task, ex_task_no_tool] ())
       = [[(''task_id'', JInt 1),
           (''result'', JStr ''Error during execution of task 1 (tool: calculator): division by zero''),
           (''status'', JStr ''failed'')],
          [(''task_id'', JInt 1), (''result'', JStr ''Unexpected error: RetryError''),
           (''status'', JStr ''failed_unexpectedly'')]]"
proof -
  have a: "invalid_task ex_task_no_tool" by code_simp
  have b: "fst (execute_loop ex_env [ex_task, ex_task_no_tool] ())
       = [[(''task_id'', JInt 1),
           (''result'', JStr ''Error during execution of task 1 (tool: calculator): division by zero''),
           (''status'', JStr ''failed'')],
          [(''task_id'', JInt 1), (''result'', JStr ''Unexpected error: RetryError''),
           (''status'', JStr ''failed_unexpectedly'')]]"
    by code_simp
  from a b c3_invalid_task_raises_and_is_recorded[OF a, of ex_env "()"] show ?thesis by simp
qed

section \<open>A capability that raises\<close>

text \<open>
  C4 (what the code does). For every task that passes the checks and whose
  capability raises, the \<open>except Exception\<close> of line 114 turns the exception into a
  failed Result inside the decorated function, which therefore returns at its first
  attempt: the capability is called once, nothing is retried, no sleep happens, and the
  message is \<open>Error during execution of task ...\<close>, which does not mention retries.
\<close>

theorem c4_dispatch_failure_not_retried:
  assumes "py_get task ''tool'' = JStr name"
    and "tools env name = Some tool"
    and "py_get task ''description'' \<noteq> JNull"
    and "tool (py_get task ''description'') w = (Inl e, w')"
    and "cls e \<noteq> RetryError"
  shows "execute_task env task w =
           (Inr (result_dict
                   (if has_key task ''id'' then py_get task ''id'' else JStr ''unknown_task'')
                   (JStr (''Error during execution of task ''
                          @ str_of env (if has_key task ''id'' then py_get task ''id''
                                        else JStr ''unknown_task'')
                          @ '' (tool: '' @ name @ ''): '' @ msg e))
                   ''failed''),
            [Attempt 1, Dispatch name], w')"
proof -
  have "name \<noteq> []" using assms(2) by (auto simp: tools_def split: if_splits)
  with assms show ?thesis
    by (subst execute_task_def, subst retrying.simps)
       (simp add: execute_task_body_def Let_def str_of_def)
qed

text \<open>
  The example task \<open>1/0\<close> for the calculator.
\<close>

theorem c4_dispatch_failure_not_retried_witness:
  "py_get ex_task ''tool'' = JStr ''calculator''
   \<and> tools ex_env ''calculator'' = Some (\<lambda>d w. (calculator ex_env d, w))
   \<and> calculator ex_env (py_get ex_task ''description'') = Inl (Exn OtherException ''division by zero'')
   \<and> execute_task ex_env ex_task ()
       = (Inr [(''task_id'', JInt 1),
               (''result'', JStr ''Error during execution of task 1 (tool: calculator): division by zero''),
               (''status'', JStr ''failed'')],
          [Attempt 1, Dispatch ''calculator''], ())"
proof -
  have a: "py_get ex_task ''tool'' = JStr ''calculator''" by code_simp
  have b: "tools ex_env ''calculator'' = Some (\<lambda>d w. (calculator ex_env d, w))"
    by (simp add: tools_def)
  have c: "py_get ex_task ''description'' \<noteq> JNull" by code_simp
  have d: "calculator ex_env (py_get ex_task ''description'') = Inl (Exn OtherException ''division by zero'')"
    by code_simp
  have d': "(\<lambda>d w. (calculator ex_env d, w)) (py_get ex_task ''description'') ()
             = (Inl (Exn OtherException ''division by zero''), ())"
    using d by simp
  have e: "cls (Exn OtherException ''division by zero'') \<noteq> RetryError" by simp
  have f: "has_key ex_task ''id''" "py_get ex_task ''id'' = JInt 1"  by code_simp+
  from c4_dispatch_failure_not_retried[OF a b c d' e] a b d f show ?thesis
    by (simp add: result_dict_def str_of_def ex_env_def ex_py_str_def)
qed

section \<open>Ids assigned by the refinement engine\<close>

text \<open>
  C6 (what the code does). The counter of line 156 is computed once, before the
  loop. In the round of \<open>c6_state\<close> the task list holds id 1, so the counter is 2; the
  first instruction adds a task with the explicit id 2, and the second, which gives no
  id, receives 2 as well: the new id is not greater than every id present, and the
  list holds two tasks with id 2.
\<close>

theorem c6_auto_id_collides:
  "(case should_continue_decision c6_state of
      (d, s) \<Rightarrow> (d, case refine_step ex_env s of
                       Inl e \<Rightarrow> None | Inr s' \<Rightarrow> Some (task_ids (tasks s'))))
   = (refine_tasks, Some [JInt 1, JInt 2, JInt 2])"
  by code_simp

section \<open>Uniqueness of task ids under refinement\<close>

lemma same_id_sym: "same_id x y = same_id y x"
  by (auto simp: same_id_def)

lemma same_id_swap: "same_id x y \<Longrightarrow> same_id y x"
  by (simp add: same_id_sym)

lemma unique_ids_append:
  "unique_ids (xs @ ys) =
     (unique_ids xs \<and> unique_ids ys \<and> (\<forall>x\<in>set xs. \<forall>y\<in>set ys. \<not> same_id x y))"
  by (induction xs) (auto simp: list_all_iff)

lemma unique_ids_map_filter:
  "unique_ids (map f ts) \<Longrightarrow> unique_ids (map f (filter P ts))"
  by (induction ts) (auto simp: list_all_iff)

lemma task_ids_append [simp]: "task_ids (xs @ ys) = task_ids xs @ task_ids ys"
  by (simp add: task_ids_def)

lemma task_ids_Nil [simp]: "task_ids [] = []"
  by (simp add: task_ids_def)

lemma task_ids_Cons [simp]: "task_ids (t # ts) = py_get t ''id'' # task_ids ts"
  by (simp add: task_ids_def)

lemma id_not_among_iff:
  "id_not_among i ts = (\<forall>j\<in>set (task_ids ts). \<not> same_id i j)"
  by (auto simp: id_not_among_def task_ids_def list_all_iff)

lemma unique_ids_replace:
  assumes "unique_ids (xs @ i # ys)"
    and "i' = i \<or> (\<forall>j\<in>set (xs @ ys). \<not> same_id i' j)"
  shows "unique_ids (xs @ i' # ys)"
  using assms by (auto simp: unique_ids_append list_all_iff) (blast dest: same_id_swap)+

lemma modify_first_unique:
  "modify_fresh tid details seen rest
   \<Longrightarrow> unique_ids (task_ids (seen @ rest))
   \<Longrightarrow> unique_ids (task_ids (seen @ modify_first tid details rest))"
proof (induction rest arbitrary: seen)
  case Nil
  then show ?case by simp
next
  case (Cons t rest)
  show ?case
  proof (cases "py_eq (py_get t ''id'') tid")
    case True
    with Cons.prems(1)
    have "py_get (dict_update t details) ''id'' = py_get t ''id''
          \<or> (\<forall>j\<in>set (task_ids seen @ task_ids rest).
                \<not> same_id (py_get (dict_update t details) ''id'') j)"
      by (simp add: id_not_among_iff)
    from unique_ids_replace[OF _ this, of ] Cons.prems(2) True show ?thesis by simp
  next
    case False
    with Cons.prems(1) have "modify_fresh tid details (seen @ [t]) rest" by simp
    from Cons.IH[OF this] Cons.prems(2) False show ?thesis by simp
  qed
qed

lemma apply_refinement_unique:
  assumes "gives_fresh_id env refinement ts c"
    and "unique_ids (task_ids ts)"
    and "apply_refinement env refinement ts c = (ts1, c1)"
  shows "unique_ids (task_ids ts1)"
proof -
  let ?action = "py_get refinement ''action''"
  let ?tid = "py_get refinement ''task_id''"
  let ?details = "py_get refinement ''details''"
  consider (remove) "py_eq ?action (JStr ''remove'')" "?tid \<noteq> JNull"
    | (modify) "\<not> (py_eq ?action (JStr ''remove'') \<and> ?tid \<noteq> JNull)"
        "py_eq ?action (JStr ''modify'')" "?tid \<noteq> JNull" "truthy ?details"
    | (add) "\<not> (py_eq ?action (JStr ''remove'') \<and> ?tid \<noteq> JNull)"
        "\<not> (py_eq ?action (JStr ''modify'') \<and> ?tid \<noteq> JNull \<and> truthy ?details)"
        "py_eq ?action (JStr ''add'')" "truthy ?details"
    | (other) "\<not> (py_eq ?action (JStr ''remove'') \<and> ?tid \<noteq> JNull)"
        "\<not> (py_eq ?action (JStr ''modify'') \<and> ?tid \<noteq> JNull \<and> truthy ?details)"
        "\<not> (py_eq ?action (JStr ''add'') \<and> truthy ?details)"
    by blast
  then show ?thesis
  proof cases
    case remove
    with assms(3) have "ts1 = filter (\<lambda>t. \<not> py_eq (py_get t ''id'') ?tid) ts"
      by (simp add: apply_refinement_def)
    with assms(2) show ?thesis
      unfolding task_ids_def by (simp add: unique_ids_map_filter)
  next
    case modify
    show ?thesis
    proof (cases "decode_details env ?details")
      case None
      with modify assms(3) have "ts1 = ts" by (simp add: apply_refinement_def)
      with assms(2) show ?thesis by simp
    next
      case (Some details)
      with modify assms(3) have ts1: "ts1 = modify_first ?tid details ts"
        by (simp add: apply_refinement_def)
      from Some modify assms(1) have "modify_fresh ?tid details [] ts"
        by (simp add: gives_fresh_id_def)
      from modify_first_unique[OF this] assms(2) show ?thesis by (simp add: ts1)
    qed
  next
    case add
    from add assms(3) have "ts1 = ts \<or> (\<exists>d. ts1 = ts @ [d] \<and> id_not_among (py_get d ''id'') ts)"
      using assms(1)
      by (auto simp: apply_refinement_def gives_fresh_id_def Let_def
          split: option.splits json.splits if_splits)
    then show ?thesis
    proof
      assume "ts1 = ts"
      with assms(2) show ?thesis by simp
    next
      assume "\<exists>d. ts1 = ts @ [d] \<and> id_not_among (py_get d ''id'') ts"
      then obtain d where "ts1 = ts @ [d]" "id_not_among (py_get d ''id'') ts" by blast
      with assms(2) show ?thesis
        by (auto simp: unique_ids_append id_not_among_iff) (blast dest: same_id_swap)+
    qed
  next
    case other
    with assms(3) have "ts1 = ts" by (simp add: apply_refinement_def)
    with assms(2) show ?thesis by simp
  qed
qed

lemma refine_loop_unique:
  "fresh_ids env rs ts c
   \<Longrightarrow> unique_ids (task_ids ts)
   \<Longrightarrow> refine_loop env rs ts c = Inr ts'
   \<Longrightarrow> unique_ids (task_ids ts')"
proof (induction rs arbitrary: ts c)
  case Nil
  then show ?case by simp
next
  case (Cons r rs)
  from Cons.prems(3) obtain refinement where r: "r = JObj refinement"
    by (cases r) simp_all
  obtain ts1 c1 where a: "apply_refinement env refinement ts c = (ts1, c1)" by fastforce
  from Cons.prems(1) r a have g: "gives_fresh_id env refinement ts c"
    and f: "fresh_ids env rs ts1 c1" by simp_all
  from apply_refinement_unique[OF g Cons.prems(2) a] have u: "unique_ids (task_ids ts1)" .
  from Cons.prems(3) r a have "refine_loop env rs ts1 c1 = Inr ts'" by simp
  from Cons.IH[OF f u this] show ?case .
qed

text \<open>
  C8 (as stated, refuted). The engine never compares an id it stores with the ids
  already present. On the task list with ids 1 and 3, an \<open>add\<close> with the explicit id 1
  gives the ids 1, 3, 1, and a \<open>modify\<close> of task 3 whose payload is \<open>{"id": 1}\<close> gives the
  ids 1, 1.
\<close>

theorem c8_counterexample:
  "unique_ids (task_ids (tasks (c8_state [ex_add_id_1])))
   \<and> refined_ids ex_env2 (c8_state [ex_add_id_1]) = Some [JInt 1, JInt 3, JInt 1]
   \<and> \<not> unique_ids [JInt 1, JInt 3, JInt 1]
   \<and> unique_ids (task_ids (tasks (c8_state [ex_modify_3_to_1])))
   \<and> refined_ids ex_env2 (c8_state [ex_modify_3_to_1]) = Some [JInt 1, JInt 1]
   \<and> \<not> unique_ids [JInt 1, JInt 1]"
  by code_simp

text \<open>
  C8 (amended). Every sequence of refinement instructions (add, with an explicit id
  or without, modify, whose payload may include an id field, remove) applied to a task
  list with unique ids yields a task list with unique ids, provided that no instruction
  gives a task an id that another task of the list has at the moment the instruction is
  applied: the id of an added task is the id of no task then present, and a modify that
  changes the id of its target changes it to the id of no other task then present.
\<close>

theorem c8_unique_ids_preserved:
  assumes "py_get (reflection s) ''refinements'' = JArr rs"
    and "fresh_ids env rs (tasks s) (initial_counter (tasks s))"
    and "unique_ids (task_ids (tasks s))"
    and "refine_step env s = Inr s'"
  shows "unique_ids (task_ids (tasks s'))"
proof (cases "rs = []")
  case True
  with assms(1) assms(4) have "tasks s' = tasks s" by (auto simp: refine_step_def)
  with assms(3) show ?thesis by simp
next
  case False
  with assms(1) assms(4) obtain ts' where
    "refine_loop env rs (tasks s) (initial_counter (tasks s)) = Inr ts'" "tasks s' = ts'"
    by (auto simp: refine_step_def Let_def split: sum.splits)
  with refine_loop_unique[OF assms(2) assms(3)] show ?thesis by simp
qed

text \<open>
  A round that removes task 3, adds a task with the explicit id 3, gives task 1 the
  id 7 and adds a task without an id.
\<close>

theorem c8_unique_ids_preserved_witness:
  "fresh_ids ex_env2 ex_safe_round (tasks (c8_state ex_safe_round))
     (initial_counter (tasks (c8_state ex_safe_round)))
   \<and> unique_ids (task_ids (tasks (c8_state ex_safe_round)))
   \<and> refined_ids ex_env2 (c8_state ex_safe_round) = Some [JInt 7, JInt 3, JInt 4]
   \<and> unique_ids [JInt 7, JInt 3, JInt 4]"
proof -
  have a: "py_get (reflection (c8_state ex_safe_round)) ''refinements'' = JArr ex_safe_round"
    by (simp add: c8_state_def py_get_def)
  have b: "fresh_ids ex_env2 ex_safe_round (tasks (c8_state ex_safe_round))
     (initial_counter (tasks (c8_state ex_safe_round)))" by code_simp
  have c: "unique_ids (task_ids (tasks (c8_state ex_safe_round)))" by code_simp
  have d: "refined_ids ex_env2 (c8_state ex_safe_round) = Some [JInt 7, JInt 3, JInt 4]"
    by code_simp
  then obtain s' where e: "refine_step ex_env2 (c8_state ex_safe_round) = Inr s'"
    and f: "task_ids (tasks s') = [JInt 7, JInt 3, JInt 4]"
    by (auto simp: refined_ids_def split: sum.splits)
  from c8_unique_ids_preserved[OF a b c e] f b c d show ?thesis by simp
qed

section \<open>What reaches arithmetic evaluation\<close>









declare retrying.simps [simp del]

lemma str_of_upd [simp]: "str_of (env\<lparr>py_eval := ev\<rparr>) = str_of env"
  by (auto simp: fun_eq_iff str_of_def split: json.splits)
























section \<open>Payloads in the final response\<close>

lemma numbered_same:
  "list_all2 (same_rendering env) rs rs'
   \<Longrightarrow> numbered env i (successful_results_data rs') = numbered env i (successful_results_data rs)"
  by (induction arbitrary: i rule: list_all2_induct)
     (auto simp: successful_results_data_def same_rendering_def)

lemma successful_empty_same:
  "list_all2 (same_rendering env) rs rs'
   \<Longrightarrow> (successful_results_data rs' = []) = (successful_results_data rs = [])"
  by (induction rule: list_all2_induct)
     (auto simp: successful_results_data_def same_rendering_def)

lemma failed_same:
  "list_all2 (same_rendering env) rs rs'
   \<Longrightarrow> failed_tasks_info env rs' = failed_tasks_info env rs"
  by (induction rule: list_all2_induct)
     (auto simp: failed_tasks_info_def same_rendering_def)

lemma response_same:
  assumes "list_all2 (same_rendering env) (results s) rs'"
  shows "map_sum id final_response (generate_response_step env (s\<lparr>results := rs'\<rparr>))
         = map_sum id final_response (generate_response_step env s)"
proof -
  from assms have "(rs' = []) = (results s = [])" by (auto simp: list_all2_Nil list_all2_Nil2)
  with numbered_same[OF assms, of 1] successful_empty_same[OF assms] failed_same[OF assms]
  show ?thesis
    by (auto simp: generate_response_step_def Let_def split: json.splits)
qed

lemma numbered_eq:
  "numbered env i data =
     map (\<lambda>k. str_of env (JInt (i + int k)) @ ''. '' @ take 500 (str_of env (data ! k)))
       [0..<length data]"
proof (induction data arbitrary: i)
  case Nil
  show ?case by simp
next
  case (Cons p rest)
  have "numbered env (i + 1) rest =
          map (\<lambda>k. str_of env (JInt (i + int (Suc k))) @ ''. ''
                     @ take 500 (str_of env ((p # rest) ! Suc k))) [0..<length rest]"
    using Cons.IH[of "i + 1"] by (simp add: algebra_simps)
  then show ?case by (simp add: map_upt_Suc del: upt_Suc)
qed

lemma response_all:
  assumes "error_message s = []"
    and "data = map (\<lambda>r. py_get r ''result'')
                  (filter (\<lambda>r. py_get r ''status'' = JStr ''completed'') (results s))"
    and "data \<noteq> []"
  shows "map_sum id final_response (generate_response_step env s)
         = Inr (strip (join [CHR 10]
             ((''Successfully completed tasks yielded:''
               # map (\<lambda>k. str_of env (JInt (1 + int k)) @ ''. ''
                           @ take 500 (str_of env (data ! k))) [0..<length data])
              @ (if failed_tasks_info env (results s) = [] then []
                 else (CHR 10 # ''Some tasks encountered issues:'')
                      # failed_tasks_info env (results s)))))"
proof -
  from assms(2) have d: "successful_results_data (results s) = data"
    by (simp add: successful_results_data_def py_eq_JStr_right)
  with assms(1) assms(3) show ?thesis
    by (simp add: generate_response_step_def Let_def numbered_eq)
qed

text \<open>
  C10. The final response renders every completed payload, in the order of the
  results and numbered from 1, by the first 500 characters of its text: the response of
  a state without fatal error and with at least one completed result is the heading,
  one line \<open>k. \<close> followed by the first 500 characters of the text of the k-th completed
  payload for each of them, and the listing of the results that are not completed.
  Hence two result lists that differ at most beyond the 500th character of completed
  payloads give the same response.
\<close>

theorem c10_payload_cut_at_500:
  "(list_all2 (same_rendering env) (results s) rs' \<longrightarrow>
      map_sum id final_response (generate_response_step env (s\<lparr>results := rs'\<rparr>))
      = map_sum id final_response (generate_response_step env s))
   \<and> (error_message s = []
       \<and> data = map (\<lambda>r. py_get r ''result'')
                  (filter (\<lambda>r. py_get r ''status'' = JStr ''completed'') (results s))
       \<and> data \<noteq> [] \<longrightarrow>
        map_sum id final_response (generate_response_step env s)
        = Inr (strip (join [CHR 10]
            ((''Successfully completed tasks yielded:''
              # map (\<lambda>k. str_of env (JInt (1 + int k)) @ ''. ''
                          @ take 500 (str_of env (data ! k))) [0..<length data])
             @ (if failed_tasks_info env (results s) = [] then []
                else (CHR 10 # ''Some tasks encountered issues:'')
                     # failed_tasks_info env (results s))))))"
  using response_same[of env s rs'] response_all[of s data env] by blast

text \<open>
  Two completed payloads, the first of 600 characters: both are rendered, the first by
  its first 500 characters.
\<close>

theorem c10_payload_cut_at_500_witness:
  "list_all2 (same_rendering ex_env) (results c10_state) c10_other_results
   \<and> map_sum id final_response (generate_response_step ex_env (c10_state\<lparr>results := c10_other_results\<rparr>))
      = map_sum id final_response (generate_response_step ex_env c10_state)
   \<and> map_sum id final_response (generate_response_step ex_env c10_state)
      = Inr (''Successfully completed tasks yielded:'' @ [CHR 10] @ ''1. ''
             @ replicate 500 (CHR ''a'') @ [CHR 10] @ ''2. second'')"
proof -
  have a: "list_all2 (same_rendering ex_env) (results c10_state) c10_other_results"
    by code_simp
  have b: "map_sum id final_response (generate_response_step ex_env c10_state)
      = Inr (''Successfully completed tasks yielded:'' @ [CHR 10] @ ''1. ''
             @ replicate 500 (CHR ''a'') @ [CHR 10] @ ''2. second'')"
    by code_simp
  from c10_payload_cut_at_500[of ex_env c10_state c10_other_results] a b
  show ?thesis by simp
qed

end
